theory Spec2Isabelle
  imports Main
begin

section \<open>The registry package of the vault-secrets-webhook\<close>

text \<open>
  A shallow embedding of \<^verbatim>\<open>cmd/vault-secrets-webhook/registry/registry.go\<close>.

  Go strings are byte sequences and are modelled as \<open>string\<close> (a list of 8-bit
  characters). A call of the package returns normally, or ends the process through
  \<^verbatim>\<open>logger.Fatal\<close> (logrus logs the message and exits with status 1), or
  panics on a run-time error. The three ways are the constructors of \<open>outcome\<close>;
  \<open>Fatal\<close> carries the first argument of the \<^verbatim>\<open>logger.Fatal\<close> call that was
  reached. None of the functions of the package has an \<^verbatim>\<open>error\<close> result, so
  \<open>Returned\<close> carries the plain Go results. Calls that only write to the log, and
  the deferred \<^verbatim>\<open>Close\<close> of the blob reader, change no result and are left out.
\<close>

datatype 'a outcome = Returned 'a | Fatal string | Panic string

fun terminates_process :: "'a outcome \<Rightarrow> bool" where
  "terminates_process (Returned x) = False"
| "terminates_process (Fatal msg) = True"
| "terminates_process (Panic msg) = True"

subsection \<open>The functions of package strings that the code calls\<close>

text \<open>
  \<^verbatim>\<open>strings.Index\<close> for a one-byte separator: the position of its first occurrence.
\<close>

fun Index :: "string \<Rightarrow> char \<Rightarrow> nat option" where
  "Index [] sep = None"
| "Index (c # s) sep = (if c = sep then Some 0 else map_option Suc (Index s sep))"

text \<open>
  The loop of \<^verbatim>\<open>strings.SplitN\<close> (genSplit): at most \<open>k\<close> cuts, each at the first
  separator of what is left, and the rest of the string as the last piece.
\<close>

fun genSplit :: "string \<Rightarrow> char \<Rightarrow> nat \<Rightarrow> string list" where
  "genSplit s sep 0 = [s]"
| "genSplit s sep (Suc k) =
     (case Index s sep of
        None \<Rightarrow> [s]
      | Some m \<Rightarrow> take m s # genSplit (drop (m + 1) s) sep k)"

definition SplitN :: "string \<Rightarrow> char \<Rightarrow> nat \<Rightarrow> string list" where
  "SplitN s sep n = (if n = 0 then [] else genSplit s sep (n - 1))"

text \<open>
  \<^verbatim>\<open>strings.TrimLeft(s, cutset)\<close> removes every leading character of \<open>s\<close> that occurs
  anywhere in \<open>cutset\<close>. Go compares code points. When \<open>cutset\<close> is ASCII that is
  the function below, for every \<open>s\<close>: a byte of a longer code point is in no ASCII
  set. For a \<open>cutset\<close> with other characters the function below compares bytes.
\<close>

definition TrimLeft :: "string \<Rightarrow> string \<Rightarrow> string" where
  "TrimLeft s cutset = dropWhile (\<lambda>c. c \<in> set cutset) s"

definition HasPrefix :: "string \<Rightarrow> string \<Rightarrow> bool" where
  "HasPrefix s pre = (length pre \<le> length s \<and> take (length pre) s = pre)"

subsection \<open>Data\<close>

record Config =
  Cmd :: "string list"
  Entrypoint :: "string list"

record BlobResponse =
  Config :: Config

text \<open>
  \<^verbatim>\<open>dockerTypes.AuthConfig\<close> is declared by the Docker client library; the package
  reads its fields \<^verbatim>\<open>Username\<close> and \<^verbatim>\<open>Password\<close> only.
\<close>

record AuthConfig =
  Username :: string
  Password :: string

text \<open>
  \<^verbatim>\<open>Auths\<close> is a Go map. \<^verbatim>\<open>parseDockerConfig\<close> takes the first element of
  \<^verbatim>\<open>reflect.ValueOf(m).MapKeys()\<close>, whose order Go leaves unspecified, so the map is
  kept as the association list of its entries in the order in which \<^verbatim>\<open>MapKeys\<close>
  enumerates them. A nil map and an empty map are both the empty list.
\<close>

record DockerCreds =
  Auths :: "(string \<times> AuthConfig) list"

text \<open>The fields of the Kubernetes objects that the package reads.\<close>

record LocalObjectReference =
  Name :: string

record Container =
  Image :: string

record PodSpec =
  ImagePullSecrets :: "LocalObjectReference list"

text \<open>
  The structure \<^verbatim>\<open>K8s\<close>. Its field \<^verbatim>\<open>clientset\<close> is the connection to the Kubernetes
  API; what that connection answers is part of the environment below.
\<close>

record K8s =
  Namespace :: string
  ImagePullSecrets :: string
  RegistryAddress :: string
  RegistryName :: string
  RegistryUsername :: string
  RegistryPassword :: string
  Image :: string

subsection \<open>JSON values and the decoding of a config blob\<close>

datatype json =
    JNull
  | JBool bool
  | JNumber string
  | JString string
  | JArray "json list"
  | JObject "(string \<times> json) list"

datatype json_error = SyntaxError | UnmarshalTypeError

text \<open>
  \<^verbatim>\<open>json.Unmarshal\<close> belongs to Go's standard library. It is modelled on parsed
  documents, for the target type \<^verbatim>\<open>BlobResponse\<close> as declared in the package, by
  the rules of encoding/json:
  \<^item> the members of an object are taken in document order; a member belongs to the
    field whose tag equals its name, upper and lower case ASCII letters identified;
    members that belong to no field are skipped;
  \<^item> a value is decoded into what the field holds already: a repeated \<^verbatim>\<open>config\<close>
    member adds to the same structure, and a repeated array member reuses the
    slots of the slice that is there;
  \<^item> \<^verbatim>\<open>null\<close> leaves a structure or a string as it is and makes a slice nil;
  \<^item> a value of another JSON type is an \<^verbatim>\<open>UnmarshalTypeError\<close>. The decoder
    remembers the first such error, goes on, and returns it at the end; the package
    only tests the error against nil, so the model stops at the first one.
\<close>

definition asciiUpper :: "char \<Rightarrow> char" where
  "asciiUpper c =
     (let n = (of_char c :: nat) in if 97 \<le> n \<and> n \<le> 122 then char_of (n - 32) else c)"

definition equalFold :: "string \<Rightarrow> string \<Rightarrow> bool" where
  "equalFold tag key = (map asciiUpper tag = map asciiUpper key)"

text \<open>A string slot receives a JSON value; the argument \<open>old\<close> is what the slot holds.\<close>

fun store_string :: "json \<Rightarrow> string \<Rightarrow> string option" where
  "store_string (JString s) old = Some s"
| "store_string JNull old = Some old"
| "store_string v old = None"

text \<open>
  The elements of a JSON array are decoded into the slots of the slice, from index
  \<open>i\<close> on. \<open>slots\<close> is the backing array as far as it has ever been written; beyond
  it the memory of a grown slice is zero, the empty string.
\<close>

fun array_elems :: "json list \<Rightarrow> nat \<Rightarrow> string list \<Rightarrow> string list option" where
  "array_elems [] i slots = Some slots"
| "array_elems (v # vs) i slots =
     (let slots' = (if i < length slots then slots else slots @ [''''])
      in case store_string v (slots' ! i) of
           None \<Rightarrow> None
         | Some s \<Rightarrow> array_elems vs (Suc i) (slots'[i := s]))"

text \<open>
  A slice of strings is its slots and its length. After the elements the length is
  the number of elements; an empty array gives a new empty slice.
\<close>

type_synonym slice = "string list \<times> nat"

fun store_slice :: "json \<Rightarrow> slice \<Rightarrow> slice option" where
  "store_slice (JArray vs) (slots, n) =
     (case array_elems vs 0 slots of
        None \<Rightarrow> None
      | Some slots' \<Rightarrow> if vs = [] then Some ([], 0) else Some (slots', length vs))"
| "store_slice JNull (slots, n) = Some ([], 0)"
| "store_slice v (slots, n) = None"

fun object_Config :: "(string \<times> json) list \<Rightarrow> slice \<times> slice \<Rightarrow> (slice \<times> slice) option" where
  "object_Config [] st = Some st"
| "object_Config ((key, v) # ms) (cmd, entrypoint) =
     (if equalFold ''Cmd'' key then
        (case store_slice v cmd of
           None \<Rightarrow> None
         | Some cmd' \<Rightarrow> object_Config ms (cmd', entrypoint))
      else if equalFold ''Entrypoint'' key then
        (case store_slice v entrypoint of
           None \<Rightarrow> None
         | Some entrypoint' \<Rightarrow> object_Config ms (cmd, entrypoint'))
      else object_Config ms (cmd, entrypoint))"

fun store_Config :: "json \<Rightarrow> slice \<times> slice \<Rightarrow> (slice \<times> slice) option" where
  "store_Config (JObject ms) st = object_Config ms st"
| "store_Config JNull st = Some st"
| "store_Config v st = None"

fun object_BlobResponse :: "(string \<times> json) list \<Rightarrow> slice \<times> slice \<Rightarrow> (slice \<times> slice) option" where
  "object_BlobResponse [] st = Some st"
| "object_BlobResponse ((key, v) # ms) st =
     (if equalFold ''config'' key then
        (case store_Config v st of
           None \<Rightarrow> None
         | Some st' \<Rightarrow> object_BlobResponse ms st')
      else object_BlobResponse ms st)"

definition slice_value :: "slice \<Rightarrow> string list" where
  "slice_value sl = take (snd sl) (fst sl)"

definition BlobResponse_of :: "slice \<times> slice \<Rightarrow> BlobResponse" where
  "BlobResponse_of st =
     \<lparr>Config = \<lparr>Cmd = slice_value (fst st), Entrypoint = slice_value (snd st)\<rparr>\<rparr>"

text \<open>
  \<^verbatim>\<open>json.Unmarshal(b, &msg)\<close> for a fresh \<^verbatim>\<open>msg\<close>. The argument is the document that
  the bytes denote, \<open>None\<close> when they are not a JSON text.
\<close>

fun Unmarshal_BlobResponse :: "json option \<Rightarrow> json_error + BlobResponse" where
  "Unmarshal_BlobResponse None = Inl SyntaxError"
| "Unmarshal_BlobResponse (Some (JObject ms)) =
     (case object_BlobResponse ms (([], 0), ([], 0)) of
        None \<Rightarrow> Inl UnmarshalTypeError
      | Some st \<Rightarrow> Inr (BlobResponse_of st))"
| "Unmarshal_BlobResponse (Some JNull) = Inr (BlobResponse_of (([], 0), ([], 0)))"
| "Unmarshal_BlobResponse (Some v) = Inl UnmarshalTypeError"

subsection \<open>The environment and the calls made to it\<close>

text \<open>
  What lies outside the package: the process environment, the Kubernetes API, the
  registry client library and the JSON grammar. Go's \<^verbatim>\<open>error\<close> values are their
  messages. \<^verbatim>\<open>DockerCreds\<close> embeds the library type \<^verbatim>\<open>AuthConfig\<close>, so its decoding
  is taken from the environment as a whole.
\<close>

type_synonym err = string

datatype hub = Hub nat

datatype reader = Reader nat

record world =
  Getenv :: "string \<Rightarrow> string"
  SecretsGet :: "string \<Rightarrow> string \<Rightarrow> err + (string \<rightharpoonup> string)"
  Unmarshal_DockerCreds :: "string \<Rightarrow> err + DockerCreds"
  registry_New :: "string \<Rightarrow> string \<Rightarrow> string \<Rightarrow> err + hub"
  registry_NewInsecure :: "string \<Rightarrow> string \<Rightarrow> string \<Rightarrow> err + hub"
  ManifestV2 :: "hub \<Rightarrow> string \<Rightarrow> string \<Rightarrow> err + string"
  DownloadBlob :: "hub \<Rightarrow> string \<Rightarrow> string \<Rightarrow> err + reader"
  ReadAll :: "reader \<Rightarrow> err + string"
  json_of :: "string \<Rightarrow> json option"

text \<open>The calls that leave the process, in the order in which they are made.\<close>

datatype event =
    CallSecretsGet string string
  | CallNew string string string
  | CallNewInsecure string string string
  | CallManifestV2 hub string string
  | CallDownloadBlob hub string string
  | CallReadAll reader

type_synonym 'a io = "event list \<times> 'a outcome"

definition bind_io :: "'a io \<Rightarrow> ('a \<Rightarrow> 'b io) \<Rightarrow> 'b io" where
  "bind_io m f =
     (case m of
        (t, Returned x) \<Rightarrow> (case f x of (t', r) \<Rightarrow> (t @ t', r))
      | (t, Fatal msg) \<Rightarrow> (t, Fatal msg)
      | (t, Panic msg) \<Rightarrow> (t, Panic msg))"

text \<open>
  A call followed by \<^verbatim>\<open>if err != nil { logger.Fatal(msg, ...) }\<close>.
\<close>

definition fatal_on_err :: "('e + 'a) \<Rightarrow> string \<Rightarrow> 'a outcome" where
  "fatal_on_err r msg = (case r of Inl e \<Rightarrow> Fatal msg | Inr x \<Rightarrow> Returned x)"

subsection \<open>The functions of the package\<close>

definition ParseContainerImage :: "string \<Rightarrow> (string \<times> string) outcome" where
  "ParseContainerImage img =
     (let split = SplitN img (CHR '':'') 2
      in if length split \<le> 1 then Fatal ''Cannot find tag for image''
         else Returned (split ! 0, split ! 1))"

definition GetImageBlob :: "world \<Rightarrow> string \<Rightarrow> string \<Rightarrow> string \<Rightarrow> string
    \<Rightarrow> (string list \<times> string list) io" where
  "GetImageBlob w url username password img =
     bind_io ([], ParseContainerImage img) (\<lambda>(imageName, tag).
     let registrySkipVerify = Getenv w ''REGISTRY_SKIP_VERIFY'' in
     bind_io
       (if registrySkipVerify = ''true''
        then ([CallNewInsecure url username password],
              fatal_on_err (registry_NewInsecure w url username password)
                ''Cannot create client for registry'')
        else ([CallNew url username password],
              fatal_on_err (registry_New w url username password)
                ''Cannot create client for registry'')) (\<lambda>hub.
     bind_io ([CallManifestV2 hub imageName tag],
              fatal_on_err (ManifestV2 w hub imageName tag)
                ''Cannot download manifest for image'') (\<lambda>digest.
     bind_io ([CallDownloadBlob hub imageName digest],
              fatal_on_err (DownloadBlob w hub imageName digest)
                ''Cannot download blob'') (\<lambda>reader.
     bind_io ([CallReadAll reader],
              fatal_on_err (ReadAll w reader) ''Cannot read blob'') (\<lambda>b.
     bind_io ([], fatal_on_err (Unmarshal_BlobResponse (json_of w b))
                ''Cannot unmarshal JSON'') (\<lambda>msg.
     ([], Returned (Entrypoint (Config msg), Cmd (Config msg)))))))))"

definition readDockerSecret :: "world \<Rightarrow> string \<Rightarrow> string
    \<Rightarrow> event list \<times> (err + (string \<rightharpoonup> string))" where
  "readDockerSecret w namespace secretName =
     ([CallSecretsGet namespace secretName], SecretsGet w namespace secretName)"

definition parseDockerConfig :: "K8s \<Rightarrow> DockerCreds \<Rightarrow> K8s outcome" where
  "parseDockerConfig k dockerCreds =
     (case map fst (Auths dockerCreds) of
        [] \<Rightarrow> Panic ''index out of range''
      | name # others \<Rightarrow>
          let k1 = k\<lparr>RegistryName := name\<rparr>;
              k2 = (if \<not> HasPrefix (RegistryName k1) ''https://''
                    then k1\<lparr>RegistryAddress := ''https://'' @ RegistryName k1\<rparr>
                    else k1\<lparr>RegistryAddress := RegistryName k1\<rparr>);
              auths = map_of (Auths dockerCreds);
              entry = (case auths (RegistryName k2) of
                         None \<Rightarrow> \<lparr>Username = '''', Password = ''''\<rparr>
                       | Some a \<Rightarrow> a)
          in Returned (k2\<lparr>RegistryUsername := Username entry,
                          RegistryPassword := Password entry\<rparr>))"

definition DockerConfigJsonKey :: string where
  "DockerConfigJsonKey = ''.dockerconfigjson''"

definition Load :: "world \<Rightarrow> K8s \<Rightarrow> Container \<Rightarrow> PodSpec \<Rightarrow> K8s io" where
  "Load w k container podSpec =
     (let k1 = k\<lparr>Image := Container.Image container\<rparr>
      in if length (PodSpec.ImagePullSecrets podSpec) \<ge> 1 then
           (let k2 = k1\<lparr>ImagePullSecrets := Name (PodSpec.ImagePullSecrets podSpec ! 0)\<rparr>
            in if ImagePullSecrets k2 \<noteq> '''' then
                 (case readDockerSecret w (Namespace k2) (ImagePullSecrets k2) of
                    (t, r) \<Rightarrow>
                      bind_io (t, fatal_on_err r ''Cannot read imagePullSecrets'') (\<lambda>data.
                      let dockerConfig = (case data DockerConfigJsonKey of
                                            None \<Rightarrow> []
                                          | Some b \<Rightarrow> b)
                      in bind_io
                           ([], fatal_on_err (Unmarshal_DockerCreds w dockerConfig)
                              ''Cannot unmarshal docker configuration from imagePullSecrets'')
                           (\<lambda>dockerCreds. ([], parseDockerConfig k2 dockerCreds))))
               else ([], Returned k2))
         else ([], Returned k1))"

definition GetEntrypointCmd :: "world \<Rightarrow> string \<Rightarrow> Container \<Rightarrow> PodSpec
    \<Rightarrow> (string list \<times> string list) io" where
  "GetEntrypointCmd w namespace container podSpec =
     bind_io
       (Load w \<lparr>Namespace = namespace, ImagePullSecrets = '''', RegistryAddress = '''',
                RegistryName = '''', RegistryUsername = '''', RegistryPassword = '''',
                Image = ''''\<rparr> container podSpec) (\<lambda>podInfo.
     let podInfo' = (if RegistryName podInfo \<noteq> ''''
                     then podInfo\<lparr>Image := TrimLeft (Image podInfo) (RegistryName podInfo @ ''/'')\<rparr>
                     else podInfo);
         registryAddress = (if RegistryAddress podInfo' = ''''
                            then ''https://registry-1.docker.io/''
                            else RegistryAddress podInfo')
     in GetImageBlob w registryAddress (RegistryUsername podInfo') (RegistryPassword podInfo')
          (Image podInfo'))"

subsection \<open>Observing a run, and a sample environment\<close>

text \<open>The calls that open a registry session.\<close>

fun is_session :: "event \<Rightarrow> bool" where
  "is_session (CallNew url username password) = True"
| "is_session (CallNewInsecure url username password) = True"
| "is_session ev = False"

text \<open>
  The constructor of the registry client that \<^verbatim>\<open>GetImageBlob\<close> calls in a given
  environment, and what the constructor answers.
\<close>

definition client :: "world \<Rightarrow> string \<Rightarrow> string \<Rightarrow> string \<Rightarrow> event \<times> (err + hub)" where
  "client w url username password =
     (if Getenv w ''REGISTRY_SKIP_VERIFY'' = ''true''
      then (CallNewInsecure url username password, registry_NewInsecure w url username password)
      else (CallNew url username password, registry_New w url username password))"

text \<open>
  The structure \<^verbatim>\<open>K8s\<close> as \<^verbatim>\<open>GetEntrypointCmd\<close> creates it: the namespace, and every
  other field at its zero value.
\<close>

definition new_K8s :: "string \<Rightarrow> K8s" where
  "new_K8s namespace =
     \<lparr>Namespace = namespace, ImagePullSecrets = '''', RegistryAddress = '''',
      RegistryName = '''', RegistryUsername = '''', RegistryPassword = '''', Image = ''''\<rparr>"

text \<open>
  A sample environment for the concrete runs below: one pull secret \<^verbatim>\<open>regcred\<close> in
  namespace \<^verbatim>\<open>default\<close> for the host \<^verbatim>\<open>myregistry.io\<close>, and a registry that serves the
  config blob of an nginx image for every repository. Byte strings are named rather
  than spelled out.
\<close>

definition nginx_blob :: json where
  "nginx_blob = JObject [(''config'', JObject
     [(''Cmd'', JArray [JString ''nginx'', JString ''-g'', JString ''daemon off;'']),
      (''Entrypoint'', JArray [])])]"

definition demo_world :: world where
  "demo_world =
     \<lparr>Getenv = (\<lambda>name. ''''),
      SecretsGet = (\<lambda>namespace name.
        if namespace = ''default'' \<and> name = ''regcred''
        then Inr [DockerConfigJsonKey \<mapsto> ''dockerconfigjson of myregistry.io'']
        else Inl ''secrets not found''),
      Unmarshal_DockerCreds = (\<lambda>b.
        if b = ''dockerconfigjson of myregistry.io''
        then Inr \<lparr>Auths = [(''myregistry.io'', \<lparr>Username = ''u'', Password = ''p''\<rparr>)]\<rparr>
        else Inl ''unexpected end of JSON input''),
      registry_New = (\<lambda>url username password. Inr (Hub 0)),
      registry_NewInsecure = (\<lambda>url username password. Inr (Hub 1)),
      ManifestV2 = (\<lambda>hub repository tag. Inr ''sha256:c0ffee''),
      DownloadBlob = (\<lambda>hub repository digest. Inr (Reader 0)),
      ReadAll = (\<lambda>reader. Inr ''config blob of nginx''),
      json_of = (\<lambda>b. if b = ''config blob of nginx'' then Some nginx_blob else None)\<rparr>"

text \<open>
  The slice that decoding an array of strings into the nil slice leaves: the strings,
  and for an empty array the new empty slice.
\<close>

definition fresh :: "string list \<Rightarrow> slice" where
  "fresh xs = (if xs = [] then ([], 0) else (xs, length xs))"

section \<open>Properties\<close>

subsection \<open>Auxiliary facts\<close>

lemma bind_io_Returned: "bind_io (t, Returned x) f = (t @ fst (f x), snd (f x))"
  by (simp add: bind_io_def split: prod.splits)

lemma bind_io_Fatal: "bind_io (t, Fatal msg) f = (t, Fatal msg)"
  by (simp add: bind_io_def)

lemma bind_io_Panic: "bind_io (t, Panic msg) f = (t, Panic msg)"
  by (simp add: bind_io_def)

lemma fatal_on_err_Inl: "fatal_on_err (Inl e) msg = Fatal msg"
  by (simp add: fatal_on_err_def)

lemma fatal_on_err_Inr: "fatal_on_err (Inr x) msg = Returned x"
  by (simp add: fatal_on_err_def)

lemmas io_simps =
  bind_io_Returned bind_io_Fatal bind_io_Panic fatal_on_err_Inl fatal_on_err_Inr

lemma Index_None: "(Index s c = None) = (c \<notin> set s)"
  by (induction s) auto

lemma Index_append: "c \<notin> set r \<Longrightarrow> Index (r @ c # t) c = Some (length r)"
  by (induction r) auto

lemma Index_takeWhile:
  "c \<in> set s \<Longrightarrow> Index s c = Some (length (takeWhile (\<lambda>x. x \<noteq> c) s))"
  by (induction s) auto

lemma drop_Suc_takeWhile: "drop (Suc (length (takeWhile P s))) s = tl (dropWhile P s)"
  by (induction s) auto

lemma ParseContainerImage_no_colon:
  "CHR '':'' \<notin> set img \<Longrightarrow> ParseContainerImage img = Fatal ''Cannot find tag for image''"
  using Index_None [of img "CHR '':''"]
  by (simp add: ParseContainerImage_def SplitN_def)

lemma ParseContainerImage_colon:
  "CHR '':'' \<in> set img \<Longrightarrow>
   ParseContainerImage img =
     Returned (takeWhile (\<lambda>c. c \<noteq> CHR '':'') img, tl (dropWhile (\<lambda>c. c \<noteq> CHR '':'') img))"
  by (simp add: ParseContainerImage_def SplitN_def Index_takeWhile drop_Suc_takeWhile
      takeWhile_eq_take [symmetric])

lemma GetImageBlob_no_tag:
  "CHR '':'' \<notin> set img \<Longrightarrow>
   GetImageBlob w url u p img = ([], Fatal ''Cannot find tag for image'')"
  by (simp add: GetImageBlob_def ParseContainerImage_no_colon io_simps)

lemma GetImageBlob_client_Inl:
  assumes "ParseContainerImage img = Returned (repo, tag)"
    and "snd (client w url u p) = Inl e"
  shows "GetImageBlob w url u p img =
           ([fst (client w url u p)], Fatal ''Cannot create client for registry'')"
  using assms by (simp add: GetImageBlob_def client_def io_simps split: if_splits)

lemma GetImageBlob_manifest_Inl:
  assumes "ParseContainerImage img = Returned (repo, tag)"
    and "snd (client w url u p) = Inr h"
    and "ManifestV2 w h repo tag = Inl e"
  shows "GetImageBlob w url u p img =
           ([fst (client w url u p), CallManifestV2 h repo tag],
            Fatal ''Cannot download manifest for image'')"
  using assms by (simp add: GetImageBlob_def client_def io_simps split: if_splits)

lemma GetImageBlob_download_Inl:
  assumes "ParseContainerImage img = Returned (repo, tag)"
    and "snd (client w url u p) = Inr h"
    and "ManifestV2 w h repo tag = Inr d"
    and "DownloadBlob w h repo d = Inl e"
  shows "GetImageBlob w url u p img =
           ([fst (client w url u p), CallManifestV2 h repo tag, CallDownloadBlob h repo d],
            Fatal ''Cannot download blob'')"
  using assms by (simp add: GetImageBlob_def client_def io_simps split: if_splits)

lemma GetImageBlob_read_Inl:
  assumes "ParseContainerImage img = Returned (repo, tag)"
    and "snd (client w url u p) = Inr h"
    and "ManifestV2 w h repo tag = Inr d"
    and "DownloadBlob w h repo d = Inr rd"
    and "ReadAll w rd = Inl e"
  shows "GetImageBlob w url u p img =
           ([fst (client w url u p), CallManifestV2 h repo tag, CallDownloadBlob h repo d,
             CallReadAll rd],
            Fatal ''Cannot read blob'')"
  using assms by (simp add: GetImageBlob_def client_def io_simps split: if_splits)

lemma GetImageBlob_read_Inr:
  assumes "ParseContainerImage img = Returned (repo, tag)"
    and "snd (client w url u p) = Inr h"
    and "ManifestV2 w h repo tag = Inr d"
    and "DownloadBlob w h repo d = Inr rd"
    and "ReadAll w rd = Inr b"
  shows "GetImageBlob w url u p img =
           ([fst (client w url u p), CallManifestV2 h repo tag, CallDownloadBlob h repo d,
             CallReadAll rd],
            case Unmarshal_BlobResponse (json_of w b) of
              Inl je \<Rightarrow> Fatal ''Cannot unmarshal JSON''
            | Inr msg \<Rightarrow> Returned (Entrypoint (Config msg), Cmd (Config msg)))"
  using assms
  by (simp add: GetImageBlob_def client_def io_simps fatal_on_err_def
      split: if_splits sum.splits)

lemma GetImageBlob_sessions:
  "filter is_session (fst (GetImageBlob w url u p img)) =
     (if CHR '':'' \<in> set img
      then [if Getenv w ''REGISTRY_SKIP_VERIFY'' = ''true''
            then CallNewInsecure url u p else CallNew url u p]
      else [])"
proof (cases "CHR '':'' \<in> set img")
  case False
  then show ?thesis by (simp add: GetImageBlob_no_tag)
next
  case True
  let ?r = "takeWhile (\<lambda>c. c \<noteq> CHR '':'') img"
  let ?t = "tl (dropWhile (\<lambda>c. c \<noteq> CHR '':'') img)"
  have parsed: "ParseContainerImage img = Returned (?r, ?t)"
    using True by (rule ParseContainerImage_colon)
  have first: "fst (client w url u p) =
      (if Getenv w ''REGISTRY_SKIP_VERIFY'' = ''true''
       then CallNewInsecure url u p else CallNew url u p)"
    by (simp add: client_def)
  have sess: "filter is_session [fst (client w url u p)] = [fst (client w url u p)]"
    by (simp add: client_def)
  show ?thesis
  proof (cases "snd (client w url u p)")
    case (Inl e)
    from GetImageBlob_client_Inl [OF parsed Inl] sess first True show ?thesis by simp
  next
    case (Inr h)
    note hub = this
    show ?thesis
    proof (cases "ManifestV2 w h ?r ?t")
      case (Inl e)
      from GetImageBlob_manifest_Inl [OF parsed hub Inl] sess first True show ?thesis by simp
    next
      case (Inr d)
      note digest = this
      show ?thesis
      proof (cases "DownloadBlob w h ?r d")
        case (Inl e)
        from GetImageBlob_download_Inl [OF parsed hub digest Inl] sess first True
        show ?thesis by simp
      next
        case (Inr rd)
        note rdr = this
        show ?thesis
        proof (cases "ReadAll w rd")
          case (Inl e)
          from GetImageBlob_read_Inl [OF parsed hub digest rdr Inl] sess first True
          show ?thesis by simp
        next
          case (Inr b)
          from GetImageBlob_read_Inr [OF parsed hub digest rdr Inr] sess first True
          show ?thesis by simp
        qed
      qed
    qed
  qed
qed

lemma Load_no_secrets:
  "PodSpec.ImagePullSecrets ps = [] \<Longrightarrow>
   Load w k c ps = ([], Returned (k\<lparr>Image := Container.Image c\<rparr>))"
  by (simp add: Load_def)

lemma Load_empty_name:
  "PodSpec.ImagePullSecrets ps = ref # refs \<Longrightarrow> Name ref = '''' \<Longrightarrow>
   Load w k c ps = ([], Returned (k\<lparr>Image := Container.Image c, ImagePullSecrets := ''''\<rparr>))"
  by (simp add: Load_def)

lemma Load_secret_Inl:
  "PodSpec.ImagePullSecrets ps = ref # refs \<Longrightarrow> Name ref \<noteq> '''' \<Longrightarrow>
   SecretsGet w (Namespace k) (Name ref) = Inl e \<Longrightarrow>
   Load w k c ps = ([CallSecretsGet (Namespace k) (Name ref)], Fatal ''Cannot read imagePullSecrets'')"
  by (simp add: Load_def readDockerSecret_def io_simps)

lemma Load_secret_Inr:
  "PodSpec.ImagePullSecrets ps = ref # refs \<Longrightarrow> Name ref \<noteq> '''' \<Longrightarrow>
   SecretsGet w (Namespace k) (Name ref) = Inr data \<Longrightarrow>
   Load w k c ps =
     ([CallSecretsGet (Namespace k) (Name ref)],
      case Unmarshal_DockerCreds w (case data DockerConfigJsonKey of None \<Rightarrow> [] | Some b \<Rightarrow> b) of
        Inl e \<Rightarrow> Fatal ''Cannot unmarshal docker configuration from imagePullSecrets''
      | Inr creds \<Rightarrow>
          parseDockerConfig (k\<lparr>Image := Container.Image c, ImagePullSecrets := Name ref\<rparr>) creds)"
  by (simp add: Load_def readDockerSecret_def io_simps fatal_on_err_def split: sum.splits)

lemma parseDockerConfig_empty:
  "Auths creds = [] \<Longrightarrow> parseDockerConfig k creds = Panic ''index out of range''"
  by (simp add: parseDockerConfig_def)

lemma parseDockerConfig_first:
  "Auths creds = (host, entry) # others \<Longrightarrow>
   parseDockerConfig k creds =
     Returned (k\<lparr>RegistryAddress := (if HasPrefix host ''https://'' then host else ''https://'' @ host),
                 RegistryName := host,
                 RegistryUsername := Username entry,
                 RegistryPassword := Password entry\<rparr>)"
  by (simp add: parseDockerConfig_def)

lemma GetEntrypointCmd_Load_Returned:
  "Load w (new_K8s ns) c ps = (t, Returned k) \<Longrightarrow>
   GetEntrypointCmd w ns c ps =
     (let r = GetImageBlob w
         (if RegistryAddress k = '''' then ''https://registry-1.docker.io/'' else RegistryAddress k)
         (RegistryUsername k) (RegistryPassword k)
         (if RegistryName k \<noteq> '''' then TrimLeft (Image k) (RegistryName k @ ''/'') else Image k)
      in (t @ fst r, snd r))"
  by (simp add: GetEntrypointCmd_def new_K8s_def io_simps Let_def)

lemma GetEntrypointCmd_Load_Fatal:
  "Load w (new_K8s ns) c ps = (t, Fatal msg) \<Longrightarrow> GetEntrypointCmd w ns c ps = (t, Fatal msg)"
  by (simp add: GetEntrypointCmd_def new_K8s_def io_simps)

lemma array_elems_strings:
  "array_elems (map JString xs) (length pre) pre = Some (pre @ xs)"
proof (induction xs arbitrary: pre)
  case Nil
  show ?case by simp
next
  case (Cons x xs)
  from Cons.IH [of "pre @ [x]"] show ?case by simp
qed

lemma equalFold_refl: "equalFold tag tag"
  by (simp add: equalFold_def)

lemma equalFold_length: "equalFold tag key \<Longrightarrow> length tag = length key"
  unfolding equalFold_def by (metis length_map)

lemma not_equalFold_Cmd_Entrypoint: "\<not> equalFold ''Cmd'' ''Entrypoint''"
  using equalFold_length [of "''Cmd''" "''Entrypoint''"] by auto

lemma ParseContainerImage_nginx:
  "ParseContainerImage ''nginx:1.19'' = Returned (''nginx'', ''1.19'')"
  by (simp add: ParseContainerImage_def SplitN_def)

lemma store_slice_fresh:
  "store_slice (JArray (map JString xs)) ([], 0) = Some (fresh xs)"
  using array_elems_strings [of xs "[]"] by (simp add: fresh_def)

lemma slice_value_fresh: "slice_value (fresh xs) = xs"
  by (simp add: slice_value_def fresh_def)

lemma slice_value_nil: "slice_value ([], 0) = []"
  by (simp add: slice_value_def)

lemmas decode_simps =
  store_slice_fresh slice_value_fresh slice_value_nil equalFold_refl
  not_equalFold_Cmd_Entrypoint BlobResponse_of_def

subsection \<open>Failures of a resolution\<close>

text \<open>
  Claim C1 reads: every failure during a resolution comes back to the caller as an
  error value, and no failure ends the process. The package does otherwise. For
  the image \<^verbatim>\<open>nginx\<close>, which has no tag, \<^verbatim>\<open>GetEntrypointCmd\<close> reaches
  \<^verbatim>\<open>logger.Fatal\<close> in \<^verbatim>\<open>ParseContainerImage\<close>, before any call to the registry: the
  process ends and the caller gets nothing back.
\<close>

theorem resolution_failure_counterexample:
  "GetEntrypointCmd demo_world ''default'' \<lparr>Container.Image = ''nginx''\<rparr>
     \<lparr>PodSpec.ImagePullSecrets = []\<rparr> = ([], Fatal ''Cannot find tag for image'') \<and>
   terminates_process (snd (GetEntrypointCmd demo_world ''default''
     \<lparr>Container.Image = ''nginx''\<rparr> \<lparr>PodSpec.ImagePullSecrets = []\<rparr>))"
proof -
  have "Load demo_world (new_K8s ''default'') \<lparr>Container.Image = ''nginx''\<rparr>
          \<lparr>PodSpec.ImagePullSecrets = []\<rparr> =
        ([], Returned ((new_K8s ''default'')\<lparr>Image := ''nginx''\<rparr>))"
    by (simp add: Load_no_secrets)
  from GetEntrypointCmd_Load_Returned [OF this]
  show ?thesis by (simp add: new_K8s_def GetImageBlob_no_tag)
qed

text \<open>
  Claim C1, amended. Every failure during a resolution ends the process through
  \<^verbatim>\<open>logger.Fatal\<close> with the message of the step that failed, and nothing is
  returned to the caller: no error value, and no entrypoint or command, in part or in
  whole. The steps are the missing tag, the constructor of the registry client, the
  manifest, the download of the blob, the reading of the blob and its decoding in
  \<^verbatim>\<open>GetImageBlob\<close>; the reading of the pull secret and the decoding of its payload in
  \<^verbatim>\<open>Load\<close>; and \<^verbatim>\<open>GetEntrypointCmd\<close> ends as \<^verbatim>\<open>GetImageBlob\<close> does once \<^verbatim>\<open>Load\<close> has
  returned.
\<close>

theorem failures_are_fatal:
  "(CHR '':'' \<notin> set img \<longrightarrow>
      GetImageBlob w url u p img = ([], Fatal ''Cannot find tag for image'')) \<and>
   (ParseContainerImage img = Returned (repo, tag) \<longrightarrow>
      (snd (client w url u p) = Inl e \<longrightarrow>
         snd (GetImageBlob w url u p img) = Fatal ''Cannot create client for registry'') \<and>
      (snd (client w url u p) = Inr h \<longrightarrow>
         (ManifestV2 w h repo tag = Inl e \<longrightarrow>
            snd (GetImageBlob w url u p img) = Fatal ''Cannot download manifest for image'') \<and>
         (ManifestV2 w h repo tag = Inr d \<longrightarrow>
            (DownloadBlob w h repo d = Inl e \<longrightarrow>
               snd (GetImageBlob w url u p img) = Fatal ''Cannot download blob'') \<and>
            (DownloadBlob w h repo d = Inr rd \<longrightarrow>
               (ReadAll w rd = Inl e \<longrightarrow>
                  snd (GetImageBlob w url u p img) = Fatal ''Cannot read blob'') \<and>
               (ReadAll w rd = Inr b \<and> Unmarshal_BlobResponse (json_of w b) = Inl je \<longrightarrow>
                  snd (GetImageBlob w url u p img) = Fatal ''Cannot unmarshal JSON''))))) \<and>
   (PodSpec.ImagePullSecrets ps = ref # refs \<and> Name ref \<noteq> '''' \<longrightarrow>
      (SecretsGet w ns (Name ref) = Inl e \<longrightarrow>
         snd (GetEntrypointCmd w ns c ps) = Fatal ''Cannot read imagePullSecrets'') \<and>
      (SecretsGet w ns (Name ref) = Inr data \<and>
       Unmarshal_DockerCreds w (case data DockerConfigJsonKey of None \<Rightarrow> [] | Some y \<Rightarrow> y) = Inl e \<longrightarrow>
         snd (GetEntrypointCmd w ns c ps) =
           Fatal ''Cannot unmarshal docker configuration from imagePullSecrets'')) \<and>
   (snd (Load w (new_K8s ns) c ps) = Returned k \<longrightarrow>
      snd (GetEntrypointCmd w ns c ps) =
        snd (GetImageBlob w
          (if RegistryAddress k = '''' then ''https://registry-1.docker.io/'' else RegistryAddress k)
          (RegistryUsername k) (RegistryPassword k)
          (if RegistryName k \<noteq> '''' then TrimLeft (Image k) (RegistryName k @ ''/'') else Image k)))"
proof (intro conjI impI)
  assume "CHR '':'' \<notin> set img"
  then show "GetImageBlob w url u p img = ([], Fatal ''Cannot find tag for image'')"
    by (rule GetImageBlob_no_tag)
next
  assume "ParseContainerImage img = Returned (repo, tag)" "snd (client w url u p) = Inl e"
  then show "snd (GetImageBlob w url u p img) = Fatal ''Cannot create client for registry''"
    by (simp add: GetImageBlob_client_Inl)
next
  assume "ParseContainerImage img = Returned (repo, tag)" "snd (client w url u p) = Inr h"
    "ManifestV2 w h repo tag = Inl e"
  then show "snd (GetImageBlob w url u p img) = Fatal ''Cannot download manifest for image''"
    by (simp add: GetImageBlob_manifest_Inl)
next
  assume "ParseContainerImage img = Returned (repo, tag)" "snd (client w url u p) = Inr h"
    "ManifestV2 w h repo tag = Inr d" "DownloadBlob w h repo d = Inl e"
  then show "snd (GetImageBlob w url u p img) = Fatal ''Cannot download blob''"
    by (simp add: GetImageBlob_download_Inl)
next
  assume "ParseContainerImage img = Returned (repo, tag)" "snd (client w url u p) = Inr h"
    "ManifestV2 w h repo tag = Inr d" "DownloadBlob w h repo d = Inr rd" "ReadAll w rd = Inl e"
  then show "snd (GetImageBlob w url u p img) = Fatal ''Cannot read blob''"
    by (simp add: GetImageBlob_read_Inl)
next
  assume "ParseContainerImage img = Returned (repo, tag)" "snd (client w url u p) = Inr h"
    "ManifestV2 w h repo tag = Inr d" "DownloadBlob w h repo d = Inr rd"
    "ReadAll w rd = Inr b \<and> Unmarshal_BlobResponse (json_of w b) = Inl je"
  then show "snd (GetImageBlob w url u p img) = Fatal ''Cannot unmarshal JSON''"
    by (simp add: GetImageBlob_read_Inr)
next
  assume "PodSpec.ImagePullSecrets ps = ref # refs \<and> Name ref \<noteq> ''''"
    "SecretsGet w ns (Name ref) = Inl e"
  then have "Load w (new_K8s ns) c ps =
      ([CallSecretsGet ns (Name ref)], Fatal ''Cannot read imagePullSecrets'')"
    using Load_secret_Inl [of ps ref refs w "new_K8s ns" e c] by (simp add: new_K8s_def)
  then show "snd (GetEntrypointCmd w ns c ps) = Fatal ''Cannot read imagePullSecrets''"
    by (simp add: GetEntrypointCmd_Load_Fatal)
next
  assume a: "PodSpec.ImagePullSecrets ps = ref # refs \<and> Name ref \<noteq> ''''"
    "SecretsGet w ns (Name ref) = Inr data \<and>
     Unmarshal_DockerCreds w (case data DockerConfigJsonKey of None \<Rightarrow> [] | Some y \<Rightarrow> y) = Inl e"
  then have "Load w (new_K8s ns) c ps =
      ([CallSecretsGet ns (Name ref)],
       Fatal ''Cannot unmarshal docker configuration from imagePullSecrets'')"
    using Load_secret_Inr [of ps ref refs w "new_K8s ns" data c] by (simp add: new_K8s_def)
  then show "snd (GetEntrypointCmd w ns c ps) =
      Fatal ''Cannot unmarshal docker configuration from imagePullSecrets''"
    by (simp add: GetEntrypointCmd_Load_Fatal)
next
  assume "snd (Load w (new_K8s ns) c ps) = Returned k"
  then have "Load w (new_K8s ns) c ps = (fst (Load w (new_K8s ns) c ps), Returned k)"
    by (metis prod.collapse)
  from GetEntrypointCmd_Load_Returned [OF this]
  show "snd (GetEntrypointCmd w ns c ps) =
        snd (GetImageBlob w
          (if RegistryAddress k = '''' then ''https://registry-1.docker.io/'' else RegistryAddress k)
          (RegistryUsername k) (RegistryPassword k)
          (if RegistryName k \<noteq> '''' then TrimLeft (Image k) (RegistryName k @ ''/'') else Image k))"
    by (simp add: Let_def)
qed

theorem failures_are_fatal_witness:
  "snd (GetImageBlob demo_world ''https://registry-1.docker.io/'' '''' '''' ''nginx'') =
     Fatal ''Cannot find tag for image'' \<and>
   snd (GetImageBlob (demo_world\<lparr>registry_New := \<lambda>url username password. Inl ''connection refused''\<rparr>)
     ''https://registry-1.docker.io/'' '''' '''' ''nginx:1.19'') =
     Fatal ''Cannot create client for registry'' \<and>
   snd (GetImageBlob (demo_world\<lparr>ManifestV2 := \<lambda>hub repository tag. Inl ''manifest unknown''\<rparr>)
     ''https://registry-1.docker.io/'' '''' '''' ''nginx:1.19'') =
     Fatal ''Cannot download manifest for image'' \<and>
   snd (GetImageBlob (demo_world\<lparr>DownloadBlob := \<lambda>hub repository digest. Inl ''blob unknown''\<rparr>)
     ''https://registry-1.docker.io/'' '''' '''' ''nginx:1.19'') =
     Fatal ''Cannot download blob'' \<and>
   snd (GetImageBlob (demo_world\<lparr>ReadAll := \<lambda>reader. Inl ''unexpected EOF''\<rparr>)
     ''https://registry-1.docker.io/'' '''' '''' ''nginx:1.19'') =
     Fatal ''Cannot read blob'' \<and>
   snd (GetImageBlob (demo_world\<lparr>json_of := \<lambda>b. None\<rparr>)
     ''https://registry-1.docker.io/'' '''' '''' ''nginx:1.19'') =
     Fatal ''Cannot unmarshal JSON'' \<and>
   snd (GetEntrypointCmd demo_world ''kube-system'' \<lparr>Container.Image = ''nginx:1.19''\<rparr>
     \<lparr>PodSpec.ImagePullSecrets = [\<lparr>Name = ''regcred''\<rparr>]\<rparr>) =
     Fatal ''Cannot read imagePullSecrets'' \<and>
   snd (GetEntrypointCmd (demo_world\<lparr>Unmarshal_DockerCreds := \<lambda>b. Inl ''invalid character''\<rparr>)
     ''default'' \<lparr>Container.Image = ''nginx:1.19''\<rparr>
     \<lparr>PodSpec.ImagePullSecrets = [\<lparr>Name = ''regcred''\<rparr>]\<rparr>) =
     Fatal ''Cannot unmarshal docker configuration from imagePullSecrets''"
proof -
  note p = ParseContainerImage_nginx
  let ?url = "''https://registry-1.docker.io/''"
  have 1: "snd (GetImageBlob demo_world ?url '''' '''' ''nginx'') =
      Fatal ''Cannot find tag for image''"
    using failures_are_fatal [where img = "''nginx''" and w = demo_world and url = ?url
        and u = "''''" and p = "''''"]
    by simp
  have 2: "snd (GetImageBlob
        (demo_world\<lparr>registry_New := \<lambda>url username password. Inl ''connection refused''\<rparr>)
        ?url '''' '''' ''nginx:1.19'') = Fatal ''Cannot create client for registry''"
    using failures_are_fatal [where img = "''nginx:1.19''" and repo = "''nginx''"
        and tag = "''1.19''" and url = ?url and u = "''''" and p = "''''"
        and e = "''connection refused''"
        and w = "demo_world\<lparr>registry_New := \<lambda>url username password. Inl ''connection refused''\<rparr>"]
    by (simp add: p client_def demo_world_def)
  have 3: "snd (GetImageBlob
        (demo_world\<lparr>ManifestV2 := \<lambda>hub repository tag. Inl ''manifest unknown''\<rparr>)
        ?url '''' '''' ''nginx:1.19'') = Fatal ''Cannot download manifest for image''"
    using failures_are_fatal [where img = "''nginx:1.19''" and repo = "''nginx''"
        and tag = "''1.19''" and url = ?url and u = "''''" and p = "''''"
        and e = "''manifest unknown''" and h = "Hub 0"
        and w = "demo_world\<lparr>ManifestV2 := \<lambda>hub repository tag. Inl ''manifest unknown''\<rparr>"]
    by (simp add: p client_def demo_world_def)
  have 4: "snd (GetImageBlob
        (demo_world\<lparr>DownloadBlob := \<lambda>hub repository digest. Inl ''blob unknown''\<rparr>)
        ?url '''' '''' ''nginx:1.19'') = Fatal ''Cannot download blob''"
    using failures_are_fatal [where img = "''nginx:1.19''" and repo = "''nginx''"
        and tag = "''1.19''" and url = ?url and u = "''''" and p = "''''"
        and e = "''blob unknown''" and h = "Hub 0" and d = "''sha256:c0ffee''"
        and w = "demo_world\<lparr>DownloadBlob := \<lambda>hub repository digest. Inl ''blob unknown''\<rparr>"]
    by (simp add: p client_def demo_world_def)
  have 5: "snd (GetImageBlob (demo_world\<lparr>ReadAll := \<lambda>reader. Inl ''unexpected EOF''\<rparr>)
        ?url '''' '''' ''nginx:1.19'') = Fatal ''Cannot read blob''"
    using failures_are_fatal [where img = "''nginx:1.19''" and repo = "''nginx''"
        and tag = "''1.19''" and url = ?url and u = "''''" and p = "''''"
        and e = "''unexpected EOF''" and h = "Hub 0" and d = "''sha256:c0ffee''"
        and rd = "Reader 0"
        and w = "demo_world\<lparr>ReadAll := \<lambda>reader. Inl ''unexpected EOF''\<rparr>"]
    by (simp add: p client_def demo_world_def)
  have 6: "snd (GetImageBlob (demo_world\<lparr>json_of := \<lambda>b. None\<rparr>)
        ?url '''' '''' ''nginx:1.19'') = Fatal ''Cannot unmarshal JSON''"
    using failures_are_fatal [where img = "''nginx:1.19''" and repo = "''nginx''"
        and tag = "''1.19''" and url = ?url and u = "''''" and p = "''''"
        and h = "Hub 0" and d = "''sha256:c0ffee''"
        and rd = "Reader 0" and b = "''config blob of nginx''" and je = SyntaxError
        and w = "demo_world\<lparr>json_of := \<lambda>b. None\<rparr>"]
    by (simp add: p client_def demo_world_def)
  have 7: "snd (GetEntrypointCmd demo_world ''kube-system'' \<lparr>Container.Image = ''nginx:1.19''\<rparr>
        \<lparr>PodSpec.ImagePullSecrets = [\<lparr>Name = ''regcred''\<rparr>]\<rparr>) =
      Fatal ''Cannot read imagePullSecrets''"
    using failures_are_fatal [where w = demo_world and ns = "''kube-system''"
        and ps = "\<lparr>PodSpec.ImagePullSecrets = [\<lparr>Name = ''regcred''\<rparr>]\<rparr>"
        and ref = "\<lparr>Name = ''regcred''\<rparr>" and refs = "[]" and e = "''secrets not found''"
        and c = "\<lparr>Container.Image = ''nginx:1.19''\<rparr>"]
    by (simp add: demo_world_def)
  have 8: "snd (GetEntrypointCmd
        (demo_world\<lparr>Unmarshal_DockerCreds := \<lambda>b. Inl ''invalid character''\<rparr>)
        ''default'' \<lparr>Container.Image = ''nginx:1.19''\<rparr>
        \<lparr>PodSpec.ImagePullSecrets = [\<lparr>Name = ''regcred''\<rparr>]\<rparr>) =
      Fatal ''Cannot unmarshal docker configuration from imagePullSecrets''"
    using failures_are_fatal [where ns = "''default''"
        and w = "demo_world\<lparr>Unmarshal_DockerCreds := \<lambda>b. Inl ''invalid character''\<rparr>"
        and ps = "\<lparr>PodSpec.ImagePullSecrets = [\<lparr>Name = ''regcred''\<rparr>]\<rparr>"
        and ref = "\<lparr>Name = ''regcred''\<rparr>" and refs = "[]" and e = "''invalid character''"
        and data = "[DockerConfigJsonKey \<mapsto> ''dockerconfigjson of myregistry.io'']"
        and c = "\<lparr>Container.Image = ''nginx:1.19''\<rparr>"]
    by (simp add: demo_world_def)
  from 1 2 3 4 5 6 7 8 show ?thesis by blast
qed

subsection \<open>The registry host in front of the image name\<close>

text \<open>
  Claim C2 reads: a resolved registry host is removed from the image name as the
  exact prefix \<^verbatim>\<open>host/\<close>, and an image that does not start with it is left as it is.
  \<^verbatim>\<open>GetEntrypointCmd\<close> calls \<^verbatim>\<open>strings.TrimLeft\<close>, which removes leading characters
  for as long as they occur in \<^verbatim>\<open>host/\<close>. With the host \<^verbatim>\<open>myregistry.io\<close> the image
  \<^verbatim>\<open>myregistry.io/store:1.0\<close> loses \<^verbatim>\<open>store\<close> as well, so that the manifest is asked
  for the empty repository, and the image \<^verbatim>\<open>redis:5\<close>, which does not start with the
  host, becomes \<^verbatim>\<open>dis:5\<close>. The image \<^verbatim>\<open>myregistry.io/app:2.0\<close> does become \<^verbatim>\<open>app:2.0\<close>,
  since \<^verbatim>\<open>a\<close> does not occur in the host.
\<close>

theorem GetEntrypointCmd_trims_a_character_set:
  "TrimLeft ''myregistry.io/app:2.0'' (''myregistry.io'' @ ''/'') = ''app:2.0'' \<and>
   TrimLeft ''myregistry.io/store:1.0'' (''myregistry.io'' @ ''/'') = '':1.0'' \<and>
   TrimLeft ''redis:5'' (''myregistry.io'' @ ''/'') = ''dis:5'' \<and>
   GetEntrypointCmd demo_world ''default'' \<lparr>Container.Image = ''myregistry.io/store:1.0''\<rparr>
     \<lparr>PodSpec.ImagePullSecrets = [\<lparr>Name = ''regcred''\<rparr>]\<rparr> =
     ([CallSecretsGet ''default'' ''regcred'',
       CallNew ''https://myregistry.io'' ''u'' ''p'',
       CallManifestV2 (Hub 0) '''' ''1.0'',
       CallDownloadBlob (Hub 0) '''' ''sha256:c0ffee'',
       CallReadAll (Reader 0)],
      Returned ([], [''nginx'', ''-g'', ''daemon off;'']))"
proof -
  have trim: "TrimLeft ''myregistry.io/store:1.0'' (''myregistry.io'' @ ''/'') = '':1.0''"
    by (simp add: TrimLeft_def)
  have trim2: "TrimLeft ''redis:5'' (''myregistry.io'' @ ''/'') = ''dis:5''"
    by (simp add: TrimLeft_def)
  have trim0: "TrimLeft ''myregistry.io/app:2.0'' (''myregistry.io'' @ ''/'') = ''app:2.0''"
    by (simp add: TrimLeft_def)
  have parse: "ParseContainerImage '':1.0'' = Returned ('''', ''1.0'')"
    by (simp add: ParseContainerImage_def SplitN_def)
  have load: "Load demo_world (new_K8s ''default'')
      \<lparr>Container.Image = ''myregistry.io/store:1.0''\<rparr>
      \<lparr>PodSpec.ImagePullSecrets = [\<lparr>Name = ''regcred''\<rparr>]\<rparr> =
      ([CallSecretsGet ''default'' ''regcred''],
       Returned \<lparr>Namespace = ''default'', ImagePullSecrets = ''regcred'',
         RegistryAddress = ''https://myregistry.io'', RegistryName = ''myregistry.io'',
         RegistryUsername = ''u'', RegistryPassword = ''p'',
         Image = ''myregistry.io/store:1.0''\<rparr>)"
    by (simp add: Load_def readDockerSecret_def io_simps demo_world_def new_K8s_def
        parseDockerConfig_def HasPrefix_def)
  have decode: "Unmarshal_BlobResponse (Some nginx_blob) =
      Inr \<lparr>Config = \<lparr>Cmd = [''nginx'', ''-g'', ''daemon off;''], Entrypoint = []\<rparr>\<rparr>"
    using not_equalFold_Cmd_Entrypoint
    by (simp add: nginx_blob_def equalFold_refl BlobResponse_of_def slice_value_def)
  have blob: "GetImageBlob demo_world ''https://myregistry.io'' ''u'' ''p'' '':1.0'' =
      ([CallNew ''https://myregistry.io'' ''u'' ''p'',
        CallManifestV2 (Hub 0) '''' ''1.0'',
        CallDownloadBlob (Hub 0) '''' ''sha256:c0ffee'',
        CallReadAll (Reader 0)],
       Returned ([], [''nginx'', ''-g'', ''daemon off;'']))"
    using GetImageBlob_read_Inr [of "'':1.0''" "''''" "''1.0''" demo_world
        "''https://myregistry.io''" "''u''" "''p''" "Hub 0" "''sha256:c0ffee''" "Reader 0"
        "''config blob of nginx''"] decode
    by (simp add: parse client_def demo_world_def)
  from GetEntrypointCmd_Load_Returned [OF load] trim blob
  have "GetEntrypointCmd demo_world ''default''
      \<lparr>Container.Image = ''myregistry.io/store:1.0''\<rparr>
      \<lparr>PodSpec.ImagePullSecrets = [\<lparr>Name = ''regcred''\<rparr>]\<rparr> =
     ([CallSecretsGet ''default'' ''regcred'',
       CallNew ''https://myregistry.io'' ''u'' ''p'',
       CallManifestV2 (Hub 0) '''' ''1.0'',
       CallDownloadBlob (Hub 0) '''' ''sha256:c0ffee'',
       CallReadAll (Reader 0)],
      Returned ([], [''nginx'', ''-g'', ''daemon off;'']))"
    by simp
  with trim0 trim trim2 show ?thesis by blast
qed

subsection \<open>The image parser\<close>

text \<open>
  Claim C3. An image string that contains a colon is cut at its first colon: when
  \<open>r\<close> has no colon, the string \<open>r:t\<close> is parsed into the repository \<open>r\<close> and the tag
  \<open>t\<close>, whatever \<open>t\<close> is. So \<^verbatim>\<open>nginx:1.19\<close> gives \<^verbatim>\<open>nginx\<close> and \<^verbatim>\<open>1.19\<close>.
\<close>

theorem ParseContainerImage_first_colon:
  "CHR '':'' \<notin> set r \<Longrightarrow> ParseContainerImage (r @ CHR '':'' # t) = Returned (r, t)"
  by (simp add: ParseContainerImage_def SplitN_def Index_append)

theorem ParseContainerImage_first_colon_witness:
  "CHR '':'' \<notin> set ''nginx'' \<and>
   ParseContainerImage ''nginx:1.19'' = Returned (''nginx'', ''1.19'')"
  using ParseContainerImage_first_colon [of "''nginx''" "''1.19''"] by simp

text \<open>
  Claim C9. On every image string with at least one colon the parser returns, and
  the tag it returns is all that follows the first colon, further colons and
  slashes included. So \<^verbatim>\<open>localhost:5000/nginx:1.19\<close> gives the repository
  \<^verbatim>\<open>localhost\<close> and the tag \<^verbatim>\<open>5000/nginx:1.19\<close>.
\<close>

theorem ParseContainerImage_tag_is_remainder:
  "CHR '':'' \<in> set img \<Longrightarrow>
   (\<exists>repository tag.
      ParseContainerImage img = Returned (repository, tag) \<and>
      img = repository @ '':'' @ tag \<and>
      CHR '':'' \<notin> set repository \<and>
      tag = tl (dropWhile (\<lambda>c. c \<noteq> CHR '':'') img))"
proof -
  assume colon: "CHR '':'' \<in> set img"
  let ?r = "takeWhile (\<lambda>c. c \<noteq> CHR '':'') img"
  let ?d = "dropWhile (\<lambda>c. c \<noteq> CHR '':'') img"
  from colon have "?d \<noteq> []" by simp
  moreover have "hd ?d = CHR '':''"
    using colon hd_dropWhile [of "\<lambda>c. c \<noteq> CHR '':''" img] by simp
  ultimately have d: "?d = CHR '':'' # tl ?d" by (cases ?d) auto
  have "img = ?r @ ?d" by simp
  with d have whole: "img = ?r @ '':'' @ tl ?d" by simp
  have clean: "CHR '':'' \<notin> set ?r"
    using set_takeWhileD [of "CHR '':''" "\<lambda>c. c \<noteq> CHR '':''" img] by blast
  from ParseContainerImage_colon [OF colon] whole clean show ?thesis by blast
qed

theorem ParseContainerImage_tag_is_remainder_witness:
  "CHR '':'' \<in> set ''localhost:5000/nginx:1.19'' \<and>
   ParseContainerImage ''localhost:5000/nginx:1.19'' =
     Returned (''localhost'', ''5000/nginx:1.19'')"
proof -
  have colon: "CHR '':'' \<in> set ''localhost:5000/nginx:1.19''" by simp
  from ParseContainerImage_tag_is_remainder [OF colon]
  show ?thesis using colon by auto
qed

subsection \<open>Credentials\<close>

text \<open>
  Claim C4. The registry address is the selected host of \<^verbatim>\<open>auths\<close>, the first that
  \<^verbatim>\<open>MapKeys\<close> enumerates, with \<^verbatim>\<open>https://\<close> put in front exactly when the host does not
  start with it already, and the user name and password are those of that host.
  This holds of \<^verbatim>\<open>parseDockerConfig\<close>, and of \<^verbatim>\<open>Load\<close> when the pull secret is read
  and its payload decoded. So the payload with the one host \<^verbatim>\<open>myregistry.io\<close>, user
  \<^verbatim>\<open>u\<close> and password \<^verbatim>\<open>p\<close> gives the address \<^verbatim>\<open>https://myregistry.io\<close> with \<^verbatim>\<open>u\<close> and
  \<^verbatim>\<open>p\<close>.
\<close>

theorem credentials_of_first_host:
  "(Auths creds = (host, entry) # others \<longrightarrow>
      parseDockerConfig k creds =
        Returned (k\<lparr>RegistryName := host,
                    RegistryAddress :=
                      (if HasPrefix host ''https://'' then host else ''https://'' @ host),
                    RegistryUsername := Username entry,
                    RegistryPassword := Password entry\<rparr>)) \<and>
   (PodSpec.ImagePullSecrets ps = ref # refs \<and> Name ref \<noteq> '''' \<and>
    SecretsGet w (Namespace k) (Name ref) = Inr data \<and>
    Unmarshal_DockerCreds w (case data DockerConfigJsonKey of None \<Rightarrow> [] | Some b \<Rightarrow> b) =
      Inr creds \<and>
    Auths creds = (host, entry) # others \<longrightarrow>
      Load w k c ps =
        ([CallSecretsGet (Namespace k) (Name ref)],
         Returned (k\<lparr>Image := Container.Image c,
                     ImagePullSecrets := Name ref,
                     RegistryName := host,
                     RegistryAddress :=
                       (if HasPrefix host ''https://'' then host else ''https://'' @ host),
                     RegistryUsername := Username entry,
                     RegistryPassword := Password entry\<rparr>)))"
proof (intro conjI impI)
  assume "Auths creds = (host, entry) # others"
  then show "parseDockerConfig k creds =
      Returned (k\<lparr>RegistryName := host,
                  RegistryAddress :=
                    (if HasPrefix host ''https://'' then host else ''https://'' @ host),
                  RegistryUsername := Username entry,
                  RegistryPassword := Password entry\<rparr>)"
    by (simp add: parseDockerConfig_first)
next
  assume a: "PodSpec.ImagePullSecrets ps = ref # refs \<and> Name ref \<noteq> '''' \<and>
    SecretsGet w (Namespace k) (Name ref) = Inr data \<and>
    Unmarshal_DockerCreds w (case data DockerConfigJsonKey of None \<Rightarrow> [] | Some b \<Rightarrow> b) =
      Inr creds \<and>
    Auths creds = (host, entry) # others"
  then have "Load w k c ps =
     ([CallSecretsGet (Namespace k) (Name ref)],
      parseDockerConfig (k\<lparr>Image := Container.Image c, ImagePullSecrets := Name ref\<rparr>) creds)"
    using Load_secret_Inr [of ps ref refs w k data c] by simp
  with a show "Load w k c ps =
        ([CallSecretsGet (Namespace k) (Name ref)],
         Returned (k\<lparr>Image := Container.Image c,
                     ImagePullSecrets := Name ref,
                     RegistryName := host,
                     RegistryAddress :=
                       (if HasPrefix host ''https://'' then host else ''https://'' @ host),
                     RegistryUsername := Username entry,
                     RegistryPassword := Password entry\<rparr>))"
    by (simp add: parseDockerConfig_first)
qed

theorem credentials_of_first_host_witness:
  "parseDockerConfig (new_K8s ''default'')
     \<lparr>Auths = [(''https://myregistry.io'', \<lparr>Username = ''u'', Password = ''p''\<rparr>)]\<rparr> =
     Returned \<lparr>Namespace = ''default'', ImagePullSecrets = '''',
       RegistryAddress = ''https://myregistry.io'', RegistryName = ''https://myregistry.io'',
       RegistryUsername = ''u'', RegistryPassword = ''p'', Image = ''''\<rparr> \<and>
   Load demo_world (new_K8s ''default'') \<lparr>Container.Image = ''myregistry.io/app:2.0''\<rparr>
     \<lparr>PodSpec.ImagePullSecrets = [\<lparr>Name = ''regcred''\<rparr>]\<rparr> =
     ([CallSecretsGet ''default'' ''regcred''],
      Returned \<lparr>Namespace = ''default'', ImagePullSecrets = ''regcred'',
        RegistryAddress = ''https://myregistry.io'', RegistryName = ''myregistry.io'',
        RegistryUsername = ''u'', RegistryPassword = ''p'',
        Image = ''myregistry.io/app:2.0''\<rparr>)"
proof -
  have 1: "parseDockerConfig (new_K8s ''default'')
     \<lparr>Auths = [(''https://myregistry.io'', \<lparr>Username = ''u'', Password = ''p''\<rparr>)]\<rparr> =
     Returned \<lparr>Namespace = ''default'', ImagePullSecrets = '''',
       RegistryAddress = ''https://myregistry.io'', RegistryName = ''https://myregistry.io'',
       RegistryUsername = ''u'', RegistryPassword = ''p'', Image = ''''\<rparr>"
    using credentials_of_first_host [where k = "new_K8s ''default''"
        and creds = "\<lparr>Auths = [(''https://myregistry.io'', \<lparr>Username = ''u'', Password = ''p''\<rparr>)]\<rparr>"
        and host = "''https://myregistry.io''" and others = "[]"
        and entry = "\<lparr>Username = ''u'', Password = ''p''\<rparr>"]
    by (simp add: new_K8s_def HasPrefix_def)
  have 2: "Load demo_world (new_K8s ''default'') \<lparr>Container.Image = ''myregistry.io/app:2.0''\<rparr>
     \<lparr>PodSpec.ImagePullSecrets = [\<lparr>Name = ''regcred''\<rparr>]\<rparr> =
     ([CallSecretsGet ''default'' ''regcred''],
      Returned \<lparr>Namespace = ''default'', ImagePullSecrets = ''regcred'',
        RegistryAddress = ''https://myregistry.io'', RegistryName = ''myregistry.io'',
        RegistryUsername = ''u'', RegistryPassword = ''p'',
        Image = ''myregistry.io/app:2.0''\<rparr>)"
    using credentials_of_first_host [where k = "new_K8s ''default''" and w = demo_world
        and ps = "\<lparr>PodSpec.ImagePullSecrets = [\<lparr>Name = ''regcred''\<rparr>]\<rparr>"
        and ref = "\<lparr>Name = ''regcred''\<rparr>" and refs = "[]"
        and c = "\<lparr>Container.Image = ''myregistry.io/app:2.0''\<rparr>"
        and data = "[DockerConfigJsonKey \<mapsto> ''dockerconfigjson of myregistry.io'']"
        and creds = "\<lparr>Auths = [(''myregistry.io'', \<lparr>Username = ''u'', Password = ''p''\<rparr>)]\<rparr>"
        and host = "''myregistry.io''" and others = "[]"
        and entry = "\<lparr>Username = ''u'', Password = ''p''\<rparr>"]
    by (simp add: new_K8s_def HasPrefix_def demo_world_def)
  from 1 2 show ?thesis by blast
qed

text \<open>
  Claim C8. \<^verbatim>\<open>parseDockerConfig\<close> indexes the list of keys of \<^verbatim>\<open>auths\<close> at 0 without a
  test: it panics exactly when \<^verbatim>\<open>auths\<close> has no entry, and returns exactly when it
  has one. A pull secret whose payload decodes well, to no entry, therefore makes
  \<^verbatim>\<open>Load\<close> panic after the secret is read; it does not reach the \<^verbatim>\<open>logger.Fatal\<close> that
  reports a payload that cannot be decoded.
\<close>

theorem parseDockerConfig_needs_an_entry:
  "(parseDockerConfig k creds = Panic ''index out of range'') = (Auths creds = []) \<and>
   ((\<exists>k'. parseDockerConfig k creds = Returned k') = (Auths creds \<noteq> [])) \<and>
   (PodSpec.ImagePullSecrets ps = ref # refs \<and> Name ref \<noteq> '''' \<and>
    SecretsGet w (Namespace k) (Name ref) = Inr data \<and>
    Unmarshal_DockerCreds w (case data DockerConfigJsonKey of None \<Rightarrow> [] | Some b \<Rightarrow> b) =
      Inr creds \<and>
    Auths creds = [] \<longrightarrow>
      Load w k c ps = ([CallSecretsGet (Namespace k) (Name ref)], Panic ''index out of range''))"
proof (intro conjI impI)
  show "(parseDockerConfig k creds = Panic ''index out of range'') = (Auths creds = [])"
  proof (cases "Auths creds")
    case Nil
    then show ?thesis by (simp add: parseDockerConfig_empty)
  next
    case (Cons a others)
    obtain host entry where "a = (host, entry)" by (cases a)
    with Cons show ?thesis by (simp add: parseDockerConfig_first)
  qed
next
  show "(\<exists>k'. parseDockerConfig k creds = Returned k') = (Auths creds \<noteq> [])"
  proof (cases "Auths creds")
    case Nil
    then show ?thesis by (simp add: parseDockerConfig_empty)
  next
    case (Cons a others)
    obtain host entry where "a = (host, entry)" by (cases a)
    with Cons show ?thesis by (simp add: parseDockerConfig_first)
  qed
next
  assume a: "PodSpec.ImagePullSecrets ps = ref # refs \<and> Name ref \<noteq> '''' \<and>
    SecretsGet w (Namespace k) (Name ref) = Inr data \<and>
    Unmarshal_DockerCreds w (case data DockerConfigJsonKey of None \<Rightarrow> [] | Some b \<Rightarrow> b) =
      Inr creds \<and>
    Auths creds = []"
  then have "Load w k c ps =
     ([CallSecretsGet (Namespace k) (Name ref)],
      parseDockerConfig (k\<lparr>Image := Container.Image c, ImagePullSecrets := Name ref\<rparr>) creds)"
    using Load_secret_Inr [of ps ref refs w k data c] by simp
  with a show "Load w k c ps =
      ([CallSecretsGet (Namespace k) (Name ref)], Panic ''index out of range'')"
    by (simp add: parseDockerConfig_empty)
qed

theorem parseDockerConfig_needs_an_entry_witness:
  "Load (demo_world\<lparr>Unmarshal_DockerCreds := \<lambda>b. Inr \<lparr>Auths = []\<rparr>\<rparr>) (new_K8s ''default'')
     \<lparr>Container.Image = ''nginx:1.19''\<rparr>
     \<lparr>PodSpec.ImagePullSecrets = [\<lparr>Name = ''regcred''\<rparr>]\<rparr> =
     ([CallSecretsGet ''default'' ''regcred''], Panic ''index out of range'') \<and>
   parseDockerConfig (new_K8s ''default'') \<lparr>Auths = []\<rparr> = Panic ''index out of range''"
proof -
  have 1: "Load (demo_world\<lparr>Unmarshal_DockerCreds := \<lambda>b. Inr \<lparr>Auths = []\<rparr>\<rparr>)
      (new_K8s ''default'') \<lparr>Container.Image = ''nginx:1.19''\<rparr>
      \<lparr>PodSpec.ImagePullSecrets = [\<lparr>Name = ''regcred''\<rparr>]\<rparr> =
     ([CallSecretsGet ''default'' ''regcred''], Panic ''index out of range'')"
    using parseDockerConfig_needs_an_entry [where k = "new_K8s ''default''"
        and w = "demo_world\<lparr>Unmarshal_DockerCreds := \<lambda>b. Inr \<lparr>Auths = []\<rparr>\<rparr>"
        and ps = "\<lparr>PodSpec.ImagePullSecrets = [\<lparr>Name = ''regcred''\<rparr>]\<rparr>"
        and ref = "\<lparr>Name = ''regcred''\<rparr>" and refs = "[]"
        and c = "\<lparr>Container.Image = ''nginx:1.19''\<rparr>"
        and data = "[DockerConfigJsonKey \<mapsto> ''dockerconfigjson of myregistry.io'']"
        and creds = "\<lparr>Auths = []\<rparr>"]
    by (simp add: new_K8s_def demo_world_def)
  have 2: "parseDockerConfig (new_K8s ''default'') \<lparr>Auths = []\<rparr> = Panic ''index out of range''"
    using parseDockerConfig_needs_an_entry [where k = "new_K8s ''default''"
        and creds = "\<lparr>Auths = []\<rparr>"]
    by simp
  from 1 2 show ?thesis by (rule conjI)
qed

text \<open>
  Claim C5. With no image pull secret in the pod specification \<^verbatim>\<open>Load\<close> makes no
  call and leaves the registry address, the user name and the password empty, and
  \<^verbatim>\<open>GetEntrypointCmd\<close> then calls \<^verbatim>\<open>GetImageBlob\<close> with the address
  \<^verbatim>\<open>https://registry-1.docker.io/\<close>, no user name and no password, on the image of
  the container.
\<close>

theorem no_pull_secret_is_anonymous:
  "PodSpec.ImagePullSecrets ps = [] \<Longrightarrow>
   Load w (new_K8s ns) c ps =
     ([], Returned \<lparr>Namespace = ns, ImagePullSecrets = '''', RegistryAddress = '''',
            RegistryName = '''', RegistryUsername = '''', RegistryPassword = '''',
            Image = Container.Image c\<rparr>) \<and>
   GetEntrypointCmd w ns c ps =
     GetImageBlob w ''https://registry-1.docker.io/'' '''' '''' (Container.Image c)"
proof -
  assume none: "PodSpec.ImagePullSecrets ps = []"
  have load: "Load w (new_K8s ns) c ps =
     ([], Returned \<lparr>Namespace = ns, ImagePullSecrets = '''', RegistryAddress = '''',
            RegistryName = '''', RegistryUsername = '''', RegistryPassword = '''',
            Image = Container.Image c\<rparr>)"
    using Load_no_secrets [OF none, of w "new_K8s ns" c] by (simp add: new_K8s_def)
  from GetEntrypointCmd_Load_Returned [OF load] load show ?thesis by simp
qed

theorem no_pull_secret_is_anonymous_witness:
  "GetEntrypointCmd demo_world ''default'' \<lparr>Container.Image = ''nginx:1.19''\<rparr>
     \<lparr>PodSpec.ImagePullSecrets = []\<rparr> =
     GetImageBlob demo_world ''https://registry-1.docker.io/'' '''' '''' ''nginx:1.19'' \<and>
   filter is_session (fst (GetEntrypointCmd demo_world ''default''
     \<lparr>Container.Image = ''nginx:1.19''\<rparr> \<lparr>PodSpec.ImagePullSecrets = []\<rparr>)) =
     [CallNew ''https://registry-1.docker.io/'' '''' '''']"
  using no_pull_secret_is_anonymous [of "\<lparr>PodSpec.ImagePullSecrets = []\<rparr>" demo_world
      "''default''" "\<lparr>Container.Image = ''nginx:1.19''\<rparr>"]
    GetImageBlob_sessions [of demo_world "''https://registry-1.docker.io/''" "''''" "''''"
      "''nginx:1.19''"]
  by (simp add: demo_world_def)

text \<open>
  Claim C10. When the first image pull secret of the pod has the empty name,
  \<^verbatim>\<open>Load\<close> reads no secret, whatever further pull secrets are listed: the structure
  has the image of the container and every registry field empty, as with no pull
  secret at all, and \<^verbatim>\<open>GetEntrypointCmd\<close> runs as in that case, against
  \<^verbatim>\<open>https://registry-1.docker.io/\<close> with no user name and no password.
\<close>

theorem empty_secret_name_is_anonymous:
  "PodSpec.ImagePullSecrets ps = ref # refs \<Longrightarrow> Name ref = '''' \<Longrightarrow>
   Load w (new_K8s ns) c ps =
     ([], Returned \<lparr>Namespace = ns, ImagePullSecrets = '''', RegistryAddress = '''',
            RegistryName = '''', RegistryUsername = '''', RegistryPassword = '''',
            Image = Container.Image c\<rparr>) \<and>
   Load w (new_K8s ns) c ps = Load w (new_K8s ns) c (ps\<lparr>PodSpec.ImagePullSecrets := []\<rparr>) \<and>
   GetEntrypointCmd w ns c ps = GetEntrypointCmd w ns c (ps\<lparr>PodSpec.ImagePullSecrets := []\<rparr>) \<and>
   GetEntrypointCmd w ns c ps =
     GetImageBlob w ''https://registry-1.docker.io/'' '''' '''' (Container.Image c)"
proof -
  assume first: "PodSpec.ImagePullSecrets ps = ref # refs" and empty: "Name ref = ''''"
  have load: "Load w (new_K8s ns) c ps =
     ([], Returned \<lparr>Namespace = ns, ImagePullSecrets = '''', RegistryAddress = '''',
            RegistryName = '''', RegistryUsername = '''', RegistryPassword = '''',
            Image = Container.Image c\<rparr>)"
    using Load_empty_name [OF first empty, of w "new_K8s ns" c] by (simp add: new_K8s_def)
  have load': "Load w (new_K8s ns) c (ps\<lparr>PodSpec.ImagePullSecrets := []\<rparr>) =
     ([], Returned \<lparr>Namespace = ns, ImagePullSecrets = '''', RegistryAddress = '''',
            RegistryName = '''', RegistryUsername = '''', RegistryPassword = '''',
            Image = Container.Image c\<rparr>)"
    using Load_no_secrets [of "ps\<lparr>PodSpec.ImagePullSecrets := []\<rparr>" w "new_K8s ns" c]
    by (simp add: new_K8s_def)
  from GetEntrypointCmd_Load_Returned [OF load] GetEntrypointCmd_Load_Returned [OF load']
    load load'
  show ?thesis by simp
qed

theorem empty_secret_name_is_anonymous_witness:
  "Load (demo_world\<lparr>SecretsGet := \<lambda>namespace name. Inl ''secrets not found''\<rparr>)
     (new_K8s ''default'') \<lparr>Container.Image = ''nginx:1.19''\<rparr>
     \<lparr>PodSpec.ImagePullSecrets = [\<lparr>Name = ''''\<rparr>, \<lparr>Name = ''regcred''\<rparr>]\<rparr> =
     ([], Returned \<lparr>Namespace = ''default'', ImagePullSecrets = '''', RegistryAddress = '''',
            RegistryName = '''', RegistryUsername = '''', RegistryPassword = '''',
            Image = ''nginx:1.19''\<rparr>) \<and>
   GetEntrypointCmd demo_world ''default'' \<lparr>Container.Image = ''nginx:1.19''\<rparr>
     \<lparr>PodSpec.ImagePullSecrets = [\<lparr>Name = ''''\<rparr>, \<lparr>Name = ''regcred''\<rparr>]\<rparr> =
   GetImageBlob demo_world ''https://registry-1.docker.io/'' '''' '''' ''nginx:1.19''"
proof -
  let ?ps = "\<lparr>PodSpec.ImagePullSecrets = [\<lparr>Name = ''''\<rparr>, \<lparr>Name = ''regcred''\<rparr>]\<rparr>"
  let ?c = "\<lparr>Container.Image = ''nginx:1.19''\<rparr>"
  have first: "PodSpec.ImagePullSecrets ?ps = \<lparr>Name = ''''\<rparr> # [\<lparr>Name = ''regcred''\<rparr>]"
    by simp
  have empty: "Name \<lparr>Name = ''''\<rparr> = ''''"
    by simp
  note inst = empty_secret_name_is_anonymous [OF first empty]
  have 1: "Load (demo_world\<lparr>SecretsGet := \<lambda>namespace name. Inl ''secrets not found''\<rparr>)
     (new_K8s ''default'') ?c ?ps =
     ([], Returned \<lparr>Namespace = ''default'', ImagePullSecrets = '''', RegistryAddress = '''',
            RegistryName = '''', RegistryUsername = '''', RegistryPassword = '''',
            Image = ''nginx:1.19''\<rparr>)"
    using inst [THEN conjunct1,
        of "demo_world\<lparr>SecretsGet := \<lambda>namespace name. Inl ''secrets not found''\<rparr>"
        "''default''" ?c]
    by simp
  have 2: "GetEntrypointCmd demo_world ''default'' ?c ?ps =
      GetImageBlob demo_world ''https://registry-1.docker.io/'' '''' '''' ''nginx:1.19''"
    using inst [THEN conjunct2, THEN conjunct2, THEN conjunct2, of demo_world "''default''" ?c]
    by simp
  from 1 2 show ?thesis by (rule conjI)
qed

subsection \<open>The registry client\<close>

text \<open>
  Claim C6. \<^verbatim>\<open>GetImageBlob\<close> opens one registry session when the image has a tag and
  none when it has not. The session is opened with \<^verbatim>\<open>registry.NewInsecure\<close>, which
  does not verify certificates, exactly when the environment variable
  \<^verbatim>\<open>REGISTRY_SKIP_VERIFY\<close> is \<^verbatim>\<open>true\<close>; for every other value, the unset variable
  included, it is opened with \<^verbatim>\<open>registry.New\<close>, which verifies them.
\<close>

theorem skip_verify_is_opt_in:
  "filter is_session (fst (GetImageBlob w url username password img)) =
     (if CHR '':'' \<in> set img
      then [if Getenv w ''REGISTRY_SKIP_VERIFY'' = ''true''
            then CallNewInsecure url username password
            else CallNew url username password]
      else [])"
  by (rule GetImageBlob_sessions)

theorem skip_verify_is_opt_in_witness:
  "filter is_session (fst (GetImageBlob demo_world ''https://myregistry.io'' ''u'' ''p''
      ''app:2.0'')) = [CallNew ''https://myregistry.io'' ''u'' ''p''] \<and>
   filter is_session (fst (GetImageBlob
      (demo_world\<lparr>Getenv := \<lambda>name. if name = ''REGISTRY_SKIP_VERIFY'' then ''true'' else ''''\<rparr>)
      ''https://myregistry.io'' ''u'' ''p'' ''app:2.0'')) =
     [CallNewInsecure ''https://myregistry.io'' ''u'' ''p''] \<and>
   filter is_session (fst (GetImageBlob
      (demo_world\<lparr>Getenv := \<lambda>name. if name = ''REGISTRY_SKIP_VERIFY'' then ''TRUE'' else ''''\<rparr>)
      ''https://myregistry.io'' ''u'' ''p'' ''app:2.0'')) =
     [CallNew ''https://myregistry.io'' ''u'' ''p'']"
proof -
  have 1: "filter is_session (fst (GetImageBlob demo_world ''https://myregistry.io'' ''u'' ''p''
      ''app:2.0'')) = [CallNew ''https://myregistry.io'' ''u'' ''p'']"
    using skip_verify_is_opt_in [of demo_world "''https://myregistry.io''" "''u''" "''p''"
        "''app:2.0''"]
    by (simp add: demo_world_def)
  have 2: "filter is_session (fst (GetImageBlob
      (demo_world\<lparr>Getenv := \<lambda>name. if name = ''REGISTRY_SKIP_VERIFY'' then ''true'' else ''''\<rparr>)
      ''https://myregistry.io'' ''u'' ''p'' ''app:2.0'')) =
     [CallNewInsecure ''https://myregistry.io'' ''u'' ''p'']"
    using skip_verify_is_opt_in [of
        "demo_world\<lparr>Getenv := \<lambda>name. if name = ''REGISTRY_SKIP_VERIFY'' then ''true'' else ''''\<rparr>"
        "''https://myregistry.io''" "''u''" "''p''" "''app:2.0''"]
    by simp
  have 3: "filter is_session (fst (GetImageBlob
      (demo_world\<lparr>Getenv := \<lambda>name. if name = ''REGISTRY_SKIP_VERIFY'' then ''TRUE'' else ''''\<rparr>)
      ''https://myregistry.io'' ''u'' ''p'' ''app:2.0'')) =
     [CallNew ''https://myregistry.io'' ''u'' ''p'']"
    using skip_verify_is_opt_in [of
        "demo_world\<lparr>Getenv := \<lambda>name. if name = ''REGISTRY_SKIP_VERIFY'' then ''TRUE'' else ''''\<rparr>"
        "''https://myregistry.io''" "''u''" "''p''" "''app:2.0''"]
    by simp
  from 1 2 3 show ?thesis by blast
qed

text \<open>
  Claim C7. A config blob \<^verbatim>\<open>{config: {Cmd: [...], Entrypoint: [...]}}\<close> of strings
  decodes to these two sequences, in their order and whichever member comes first; a
  member that is absent decodes to the empty sequence and is no error; and
  \<^verbatim>\<open>GetImageBlob\<close> returns the entrypoint and the command of the decoded
  \<^verbatim>\<open>config\<close>. So the blob with \<^verbatim>\<open>Cmd\<close> \<^verbatim>\<open>nginx\<close>, \<^verbatim>\<open>-g\<close>, \<^verbatim>\<open>daemon off;\<close> and an empty
  \<^verbatim>\<open>Entrypoint\<close> gives that command and the empty entrypoint.
\<close>

theorem blob_decoding:
  "Unmarshal_BlobResponse (Some (JObject [(''config'', JObject
       [(''Cmd'', JArray (map JString cmd)),
        (''Entrypoint'', JArray (map JString entrypoint))])])) =
     Inr \<lparr>Config = \<lparr>Cmd = cmd, Entrypoint = entrypoint\<rparr>\<rparr> \<and>
   Unmarshal_BlobResponse (Some (JObject [(''config'', JObject
       [(''Entrypoint'', JArray (map JString entrypoint)),
        (''Cmd'', JArray (map JString cmd))])])) =
     Inr \<lparr>Config = \<lparr>Cmd = cmd, Entrypoint = entrypoint\<rparr>\<rparr> \<and>
   Unmarshal_BlobResponse (Some (JObject [(''config'', JObject
       [(''Cmd'', JArray (map JString cmd))])])) =
     Inr \<lparr>Config = \<lparr>Cmd = cmd, Entrypoint = []\<rparr>\<rparr> \<and>
   Unmarshal_BlobResponse (Some (JObject [(''config'', JObject
       [(''Entrypoint'', JArray (map JString entrypoint))])])) =
     Inr \<lparr>Config = \<lparr>Cmd = [], Entrypoint = entrypoint\<rparr>\<rparr> \<and>
   Unmarshal_BlobResponse (Some (JObject [(''config'', JObject [])])) =
     Inr \<lparr>Config = \<lparr>Cmd = [], Entrypoint = []\<rparr>\<rparr> \<and>
   (ParseContainerImage img = Returned (repo, tag) \<and>
    snd (client w url u p) = Inr h \<and>
    ManifestV2 w h repo tag = Inr d \<and>
    DownloadBlob w h repo d = Inr rd \<and>
    ReadAll w rd = Inr b \<and>
    Unmarshal_BlobResponse (json_of w b) = Inr msg \<longrightarrow>
      snd (GetImageBlob w url u p img) = Returned (Entrypoint (Config msg), Cmd (Config msg)))"
proof (intro conjI impI)
  show "Unmarshal_BlobResponse (Some (JObject [(''config'', JObject
       [(''Cmd'', JArray (map JString cmd)),
        (''Entrypoint'', JArray (map JString entrypoint))])])) =
     Inr \<lparr>Config = \<lparr>Cmd = cmd, Entrypoint = entrypoint\<rparr>\<rparr>"
    by (simp add: decode_simps del: store_slice.simps)
next
  show "Unmarshal_BlobResponse (Some (JObject [(''config'', JObject
       [(''Entrypoint'', JArray (map JString entrypoint)),
        (''Cmd'', JArray (map JString cmd))])])) =
     Inr \<lparr>Config = \<lparr>Cmd = cmd, Entrypoint = entrypoint\<rparr>\<rparr>"
    by (simp add: decode_simps del: store_slice.simps)
next
  show "Unmarshal_BlobResponse (Some (JObject [(''config'', JObject
       [(''Cmd'', JArray (map JString cmd))])])) =
     Inr \<lparr>Config = \<lparr>Cmd = cmd, Entrypoint = []\<rparr>\<rparr>"
    by (simp add: decode_simps del: store_slice.simps)
next
  show "Unmarshal_BlobResponse (Some (JObject [(''config'', JObject
       [(''Entrypoint'', JArray (map JString entrypoint))])])) =
     Inr \<lparr>Config = \<lparr>Cmd = [], Entrypoint = entrypoint\<rparr>\<rparr>"
    by (simp add: decode_simps del: store_slice.simps)
next
  show "Unmarshal_BlobResponse (Some (JObject [(''config'', JObject [])])) =
     Inr \<lparr>Config = \<lparr>Cmd = [], Entrypoint = []\<rparr>\<rparr>"
    by (simp add: decode_simps del: store_slice.simps)
next
  assume "ParseContainerImage img = Returned (repo, tag) \<and>
    snd (client w url u p) = Inr h \<and>
    ManifestV2 w h repo tag = Inr d \<and>
    DownloadBlob w h repo d = Inr rd \<and>
    ReadAll w rd = Inr b \<and>
    Unmarshal_BlobResponse (json_of w b) = Inr msg"
  then show "snd (GetImageBlob w url u p img) =
      Returned (Entrypoint (Config msg), Cmd (Config msg))"
    using GetImageBlob_read_Inr [of img repo tag w url u p h d rd b] by simp
qed

theorem blob_decoding_witness:
  "Unmarshal_BlobResponse (Some (JObject [(''config'', JObject
       [(''Cmd'', JArray [JString ''nginx'', JString ''-g'', JString ''daemon off;'']),
        (''Entrypoint'', JArray [])])])) =
     Inr \<lparr>Config = \<lparr>Cmd = [''nginx'', ''-g'', ''daemon off;''], Entrypoint = []\<rparr>\<rparr> \<and>
   snd (GetImageBlob demo_world ''https://registry-1.docker.io/'' '''' '''' ''nginx:1.19'') =
     Returned ([], [''nginx'', ''-g'', ''daemon off;''])"
proof -
  have 1: "Unmarshal_BlobResponse (Some (JObject [(''config'', JObject
       [(''Cmd'', JArray [JString ''nginx'', JString ''-g'', JString ''daemon off;'']),
        (''Entrypoint'', JArray [])])])) =
     Inr \<lparr>Config = \<lparr>Cmd = [''nginx'', ''-g'', ''daemon off;''], Entrypoint = []\<rparr>\<rparr>"
    using blob_decoding [where cmd = "[''nginx'', ''-g'', ''daemon off;'']"
        and entrypoint = "[]", THEN conjunct1]
    by simp
  have 2: "snd (GetImageBlob demo_world ''https://registry-1.docker.io/'' '''' '''' ''nginx:1.19'') =
     Returned ([], [''nginx'', ''-g'', ''daemon off;''])"
    using blob_decoding [where img = "''nginx:1.19''" and repo = "''nginx''" and tag = "''1.19''"
        and w = demo_world and url = "''https://registry-1.docker.io/''" and u = "''''"
        and p = "''''" and h = "Hub 0" and d = "''sha256:c0ffee''" and rd = "Reader 0"
        and b = "''config blob of nginx''"
        and msg = "\<lparr>Config = \<lparr>Cmd = [''nginx'', ''-g'', ''daemon off;''], Entrypoint = []\<rparr>\<rparr>"]
      1
    by (simp add: ParseContainerImage_nginx client_def demo_world_def nginx_blob_def)
  from 1 2 show ?thesis by (rule conjI)
qed

end
